theory Spec2Isabelle
  imports Complex_Main
begin

section \<open>The adp toolbox (adptbx): data model\<close>

text \<open>
  The toolbox is generic in a floating-point type. The embedding takes the finite
  values of that type as the real numbers and every arithmetic operation as exact;
  rounding, overflow and underflow are outside the embedding. The one place where the
  code leaves the finite values on finite input (the quotient in the eigenvalue
  solver) is modelled with an explicit not-a-number value, see \<open>fp\<close> below.

  A \<open>boost::array<FloatType, N>\<close> has a fixed size, so it is a tuple:
  three components for a vector, six for a symmetric tensor in the order
  (11, 22, 33, 12, 13, 23), nine for a dense 3x3 matrix in row-major order.
\<close>

type_synonym vec3 = "real \<times> real \<times> real"
type_synonym sym6 = "real \<times> real \<times> real \<times> real \<times> real \<times> real"
type_synonym mx33 = "real \<times> real \<times> real \<times> real \<times> real \<times> real \<times> real \<times> real \<times> real"

text \<open>A Miller index is three signed integers.\<close>

type_synonym Miller_Index = "int \<times> int \<times> int"

text \<open>
  Modelled from the spec: the class \<open>uctbx::UnitCell\<close> is not part of the sources.
  The toolbox reads from it the reciprocal edge lengths (\<open>getLen(true)\<close>), the
  fractionalization and orthogonalization matrices, and the quantity \<open>Q\<close> of a Miller
  index; they are the fields of an opaque read-only value.
\<close>

record UnitCell =
  Len :: vec3
  R_Len :: vec3
  FractionalizationMatrix :: mx33
  OrthogonalizationMatrix :: mx33
  Q :: "Miller_Index \<Rightarrow> real"

definition getLen :: "UnitCell \<Rightarrow> bool \<Rightarrow> vec3" where
  "getLen uc reciprocal = (if reciprocal then R_Len uc else Len uc)"

text \<open>
  Modelled from the spec: the macro \<open>cctbx_internal_error\<close> is not part of the
  sources; the spec makes what it throws an error kind of its own, next to the static
  \<open>not_positive_definite\<close> that the toolbox declares.
\<close>

datatype error = not_positive_definite | cctbx_internal_error

definition TwoPiSquared :: real where
  "TwoPiSquared = 2 * pi * pi"

definition EightPiSquared :: real where
  "EightPiSquared = 8 * pi * pi"

text \<open>
  Modelled from the spec: the arithmetic operators on \<open>boost::array\<close> (scalar times
  array, array divided by scalar) are not part of the sources; the spec describes the
  conversions that use them as a uniform scale of all six components.
\<close>

fun scale6 :: "real \<Rightarrow> sym6 \<Rightarrow> sym6" where
  "scale6 c (x0, x1, x2, x3, x4, x5) = (c * x0, c * x1, c * x2, c * x3, c * x4, c * x5)"

fun div6 :: "sym6 \<Rightarrow> real \<Rightarrow> sym6" where
  "div6 (x0, x1, x2, x3, x4, x5) c = (x0 / c, x1 / c, x2 / c, x3 / c, x4 / c, x5 / c)"


section \<open>Tensor representation converter\<close>

fun Xaniso_as_SymMx33 :: "sym6 \<Rightarrow> mx33" where
  "Xaniso_as_SymMx33 (x0, x1, x2, x3, x4, x5) = (x0, x3, x4, x3, x1, x5, x4, x5, x2)"

fun SymMx33_as_Xaniso :: "mx33 \<Rightarrow> sym6" where
  "SymMx33_as_Xaniso (m0, m1, m2, m3, m4, m5, m6, m7, m8) = (m0, m4, m8, m1, m2, m5)"

text \<open>The isotropic conversions \<open>U_as_B(double)\<close> and \<open>B_as_U(double)\<close>.\<close>

definition U_as_B :: "real \<Rightarrow> real" where
  "U_as_B Uiso = Uiso * EightPiSquared"

definition B_as_U :: "real \<Rightarrow> real" where
  "B_as_U Biso = Biso / EightPiSquared"

text \<open>Their overloads on six-component arrays.\<close>

definition U_as_B_aniso :: "sym6 \<Rightarrow> sym6" where
  "U_as_B_aniso Uaniso = scale6 EightPiSquared Uaniso"

definition B_as_U_aniso :: "sym6 \<Rightarrow> sym6" where
  "B_as_U_aniso Baniso = scale6 (1 / EightPiSquared) Baniso"

fun Uuvrs_as_Ustar_len :: "vec3 \<Rightarrow> sym6 \<Rightarrow> sym6" where
  "Uuvrs_as_Ustar_len (l0, l1, l2) (u0, u1, u2, u3, u4, u5) =
     (u0 * (l0 * l0), u1 * (l1 * l1), u2 * (l2 * l2),
      u3 * (l0 * l1), u4 * (l0 * l2), u5 * (l1 * l2))"

definition Uuvrs_as_Ustar :: "UnitCell \<Rightarrow> sym6 \<Rightarrow> sym6" where
  "Uuvrs_as_Ustar uc Uuvrs = Uuvrs_as_Ustar_len (getLen uc True) Uuvrs"

fun Ustar_as_Uuvrs_len :: "vec3 \<Rightarrow> sym6 \<Rightarrow> sym6" where
  "Ustar_as_Uuvrs_len (l0, l1, l2) (u0, u1, u2, u3, u4, u5) =
     (u0 / (l0 * l0), u1 / (l1 * l1), u2 / (l2 * l2),
      u3 / (l0 * l1), u4 / (l0 * l2), u5 / (l1 * l2))"

definition Ustar_as_Uuvrs :: "UnitCell \<Rightarrow> sym6 \<Rightarrow> sym6" where
  "Ustar_as_Uuvrs uc Ustar = Ustar_as_Uuvrs_len (getLen uc True) Ustar"

definition Ustar_as_beta :: "sym6 \<Rightarrow> sym6" where
  "Ustar_as_beta Ustar = scale6 TwoPiSquared Ustar"

definition beta_as_Ustar :: "sym6 \<Rightarrow> sym6" where
  "beta_as_Ustar beta = div6 beta TwoPiSquared"

fun Ucart_as_Uiso :: "sym6 \<Rightarrow> real" where
  "Ucart_as_Uiso (u0, u1, u2, u3, u4, u5) = (u0 + u1 + u2) / 3"

definition Uiso_as_Ucart :: "real \<Rightarrow> sym6" where
  "Uiso_as_Ucart Uiso = (Uiso, Uiso, Uiso, 0, 0, 0)"


section \<open>Debye-Waller evaluator\<close>

text \<open>
  \<open>DebyeWallerFactorBiso\<close> and \<open>DebyeWallerFactorUiso\<close> are overloaded: on
  \<open>(sin(theta)/lambda)^2\<close> and on a unit cell with a Miller index (suffix \<open>_uc\<close>).
  None of the evaluators throws, so they return plain values.
\<close>

definition DebyeWallerFactorBiso :: "real \<Rightarrow> real \<Rightarrow> real" where
  "DebyeWallerFactorBiso stol2 Biso = exp (- Biso * stol2)"

definition DebyeWallerFactorUiso :: "real \<Rightarrow> real \<Rightarrow> real" where
  "DebyeWallerFactorUiso stol2 Uiso = DebyeWallerFactorBiso stol2 (U_as_B Uiso)"

definition DebyeWallerFactorBiso_uc :: "UnitCell \<Rightarrow> Miller_Index \<Rightarrow> real \<Rightarrow> real" where
  "DebyeWallerFactorBiso_uc uc MIx Biso = DebyeWallerFactorBiso (Q uc MIx / 4) Biso"

definition DebyeWallerFactorUiso_uc :: "UnitCell \<Rightarrow> Miller_Index \<Rightarrow> real \<Rightarrow> real" where
  "DebyeWallerFactorUiso_uc uc MIx Uiso = DebyeWallerFactorBiso_uc uc MIx (U_as_B Uiso)"

text \<open>
  The products of Miller indices are integer products, converted to the floating-point
  type when multiplied with a tensor component.
\<close>

fun DebyeWallerFactorUstar :: "Miller_Index \<Rightarrow> sym6 \<Rightarrow> real" where
  "DebyeWallerFactorUstar (h, k, l) (u0, u1, u2, u3, u4, u5) =
     exp (- TwoPiSquared * (
         real_of_int (h * h) * u0
       + real_of_int (k * k) * u1
       + real_of_int (l * l) * u2
       + real_of_int (2 * h * k) * u3
       + real_of_int (2 * h * l) * u4
       + real_of_int (2 * k * l) * u5))"

fun DebyeWallerFactor_beta :: "Miller_Index \<Rightarrow> sym6 \<Rightarrow> real" where
  "DebyeWallerFactor_beta (h, k, l) (b0, b1, b2, b3, b4, b5) =
     exp (- (
         real_of_int (h * h) * b0
       + real_of_int (k * k) * b1
       + real_of_int (l * l) * b2
       + real_of_int (2 * h * k) * b3
       + real_of_int (2 * h * l) * b4
       + real_of_int (2 * k * l) * b5))"

definition DebyeWallerFactorUuvrs :: "UnitCell \<Rightarrow> Miller_Index \<Rightarrow> sym6 \<Rightarrow> real" where
  "DebyeWallerFactorUuvrs uc MIx Uuvrs = DebyeWallerFactorUstar MIx (Uuvrs_as_Ustar uc Uuvrs)"


section \<open>Helpers of the eigenvalue and eigenvector solvers\<close>

text \<open>
  Modelled from the spec: the macro \<open>cctbx_assert\<close> is not part of the sources. The
  solvers use it next to \<open>throw not_positive_definite\<close>; the spec puts the two
  conditions it guards (a positive discriminant, a zero cross product) in the
  NotPositiveDefinite category, so its failure is that error here.
\<close>

definition cctbx_assert_failure :: error where
  "cctbx_assert_failure = not_positive_definite"

text \<open>
  Values of the floating-point type that the eigenvalue solver computes from finite
  input: a finite value or not-a-number.
\<close>

datatype fp = Finite real | NaN

text \<open>\<open>std::sqrt\<close> of a negative number is NaN.\<close>

definition fp_sqrt :: "real \<Rightarrow> fp" where
  "fp_sqrt x = (if x < 0 then NaN else Finite (sqrt x))"

text \<open>
  The quotient \<open>a / b\<close> of two finite values followed by \<open>std::acos\<close>. For \<open>b = 0\<close>
  the quotient is NaN (when \<open>a = 0\<close>) or an infinity, and \<open>std::acos\<close> of either,
  as of every value outside \<open>[-1, 1]\<close>, is NaN.
\<close>

definition fp_acos_quotient :: "real \<Rightarrow> real \<Rightarrow> fp" where
  "fp_acos_quotient a b =
     (if b = 0 \<or> 1 < \<bar>a / b\<bar> then NaN else Finite (arccos (a / b)))"

text \<open>NaN propagates through arithmetic, and every comparison with NaN is false.\<close>

fun fp_map :: "(real \<Rightarrow> real) \<Rightarrow> fp \<Rightarrow> fp" where
  "fp_map f (Finite x) = Finite (f x)"
| "fp_map f NaN = NaN"

fun fp_bind :: "fp \<Rightarrow> (real \<Rightarrow> fp) \<Rightarrow> fp" where
  "fp_bind (Finite x) f = f x"
| "fp_bind NaN f = NaN"

fun fp_map2 :: "(real \<Rightarrow> real \<Rightarrow> real) \<Rightarrow> fp \<Rightarrow> fp \<Rightarrow> fp" where
  "fp_map2 f (Finite x) (Finite y) = Finite (f x y)"
| "fp_map2 f _ _ = NaN"

fun fp_le_zero :: "fp \<Rightarrow> bool" where
  "fp_le_zero (Finite x) = (x \<le> 0)"
| "fp_le_zero NaN = False"

text \<open>
  Modelled from the spec: the primitives of \<open>MatrixLite\<close> and the array helpers
  \<open>boost::array_abs\<close> and \<open>boost::array_max_index\<close> are not part of the sources.
  They are the fixed-size linear algebra the spec names: the matrix-vector product, the
  scalar product of two vectors (\<open>operator*\<close>), division by a scalar, negation, the
  determinant, the transposed cofactor matrix, the diagonal, the cross product, the
  component-wise absolute value, the index of the largest component (the lowest index
  wins a tie), and equality of two vectors within a tolerance in every component.
\<close>

fun multiply :: "mx33 \<Rightarrow> vec3 \<Rightarrow> vec3" where
  "multiply (m0, m1, m2, m3, m4, m5, m6, m7, m8) (v0, v1, v2) =
     (m0 * v0 + m1 * v1 + m2 * v2,
      m3 * v0 + m4 * v1 + m5 * v2,
      m6 * v0 + m7 * v1 + m8 * v2)"

fun dot :: "vec3 \<Rightarrow> vec3 \<Rightarrow> real" where
  "dot (a0, a1, a2) (b0, b1, b2) = a0 * b0 + a1 * b1 + a2 * b2"

fun vec_div :: "vec3 \<Rightarrow> real \<Rightarrow> vec3" where
  "vec_div (a0, a1, a2) c = (a0 / c, a1 / c, a2 / c)"

fun vec_neg :: "vec3 \<Rightarrow> vec3" where
  "vec_neg (a0, a1, a2) = (- a0, - a1, - a2)"

fun array_abs :: "vec3 \<Rightarrow> vec3" where
  "array_abs (a0, a1, a2) = (\<bar>a0\<bar>, \<bar>a1\<bar>, \<bar>a2\<bar>)"

fun array_max_index :: "vec3 \<Rightarrow> nat" where
  "array_max_index (a0, a1, a2) =
     (let i = (if a0 < a1 then 1 else 0)
      in if (if i = 1 then a1 else a0) < a2 then 2 else i)"

fun elem :: "vec3 \<Rightarrow> nat \<Rightarrow> real" where
  "elem (a0, a1, a2) i = (if i = 0 then a0 else if i = 1 then a1 else a2)"

fun approx_equal :: "vec3 \<Rightarrow> vec3 \<Rightarrow> real \<Rightarrow> bool" where
  "approx_equal (a0, a1, a2) (b0, b1, b2) scaled_tolerance =
     (\<bar>a0 - b0\<bar> \<le> scaled_tolerance \<and> \<bar>a1 - b1\<bar> \<le> scaled_tolerance
      \<and> \<bar>a2 - b2\<bar> \<le> scaled_tolerance)"

fun Determinant :: "mx33 \<Rightarrow> real" where
  "Determinant (m0, m1, m2, m3, m4, m5, m6, m7, m8) =
     m0 * (m4 * m8 - m5 * m7) - m1 * (m3 * m8 - m5 * m6) + m2 * (m3 * m7 - m4 * m6)"

fun CoFactorMxTp :: "mx33 \<Rightarrow> mx33" where
  "CoFactorMxTp (m0, m1, m2, m3, m4, m5, m6, m7, m8) =
     (m4 * m8 - m5 * m7, - (m1 * m8 - m2 * m7), m1 * m5 - m2 * m4,
      - (m3 * m8 - m5 * m6), m0 * m8 - m2 * m6, - (m0 * m5 - m2 * m3),
      m3 * m7 - m4 * m6, - (m0 * m7 - m1 * m6), m0 * m4 - m1 * m3)"

fun mx_div :: "mx33 \<Rightarrow> real \<Rightarrow> mx33" where
  "mx_div (m0, m1, m2, m3, m4, m5, m6, m7, m8) c =
     (m0 / c, m1 / c, m2 / c, m3 / c, m4 / c, m5 / c, m6 / c, m7 / c, m8 / c)"

fun DiagonalElements :: "mx33 \<Rightarrow> vec3" where
  "DiagonalElements (m0, m1, m2, m3, m4, m5, m6, m7, m8) = (m0, m4, m8)"

fun cross_product :: "vec3 \<Rightarrow> vec3 \<Rightarrow> vec3" where
  "cross_product (a0, a1, a2) (b0, b1, b2) =
     (a1 * b2 - a2 * b1, a2 * b0 - a0 * b2, a0 * b1 - a1 * b0)"

text \<open>\<open>V.assign(0.); V[iLarge] = 1.\<close>\<close>

definition unit_vector :: "nat \<Rightarrow> vec3" where
  "unit_vector iLarge =
     (if iLarge = 0 then (1, 0, 0) else if iLarge = 1 then (0, 1, 0) else (0, 0, 1))"


section \<open>Eigenvalue solver\<close>

text \<open>
  The coefficients of the normal form \<open>x^3 + r x^2 + s x + t = 0\<close> of the
  characteristic equation of the tensor.
\<close>

fun normal_form :: "sym6 \<Rightarrow> real \<times> real \<times> real" where
  "normal_form (adp0, adp1, adp2, adp3, adp4, adp5) =
     (- adp0 - adp1 - adp2,
      adp0 * adp1 + adp0 * adp2 + adp1 * adp2 - adp3 * adp3 - adp4 * adp4 - adp5 * adp5,
      adp0 * adp5 * adp5 - adp0 * adp1 * adp2 + adp2 * adp3 * adp3 + adp1 * adp4 * adp4
        - 2 * adp3 * adp4 * adp5)"

text \<open>The coefficients of the reduced form \<open>y^3 + p y + q = 0\<close> and the quantity \<open>D\<close>.\<close>

definition reduced_p :: "real \<Rightarrow> real \<Rightarrow> real" where
  "reduced_p r s = s - r * r / 3"

definition reduced_q :: "real \<Rightarrow> real \<Rightarrow> real \<Rightarrow> real" where
  "reduced_q r s t = 2 * r * r * r / 27 - r * s / 3 + t"

definition cubic_D :: "real \<Rightarrow> real \<Rightarrow> real \<Rightarrow> real" where
  "cubic_D r s t =
     reduced_p r s * reduced_p r s * reduced_p r s / 27 + reduced_q r s t * reduced_q r s t / 4"

text \<open>
  The i-th root by Cardan's formula: \<open>rzeta * cos((phi + (i * 2) * pi) / 3) - r / 3\<close>.
\<close>

definition cardan_root :: "real \<Rightarrow> fp \<Rightarrow> fp \<Rightarrow> nat \<Rightarrow> fp" where
  "cardan_root r rzeta phi i =
     fp_map2 (\<lambda>rz ph. rz * cos ((ph + real (i * 2) * pi) / 3) - r / 3) rzeta phi"

text \<open>
  The body of \<open>Eigenvalues\<close> from the reduced form on: the assertion \<open>D <= 0\<close>, the
  three roots, each checked as soon as it is computed.
\<close>

definition Eigenvalues_cardan :: "real \<Rightarrow> real \<Rightarrow> real \<Rightarrow> error + (fp \<times> fp \<times> fp)" where
  "Eigenvalues_cardan r s t =
     (let p = reduced_p r s;
          q = reduced_q r s t;
          p3 = p * p * p;
          q2 = q * q;
          D = p3 / 27 + q2 / 4
      in if \<not> D \<le> 0 then Inl cctbx_assert_failure
         else
           let zeta = fp_sqrt (- p3 / 27);
               phi = fp_bind zeta (\<lambda>z. fp_acos_quotient (- q) (2 * z));
               rzeta = fp_map (\<lambda>z. 2 * z powr (1 / 3)) zeta
           in if fp_le_zero (cardan_root r rzeta phi 0) then Inl not_positive_definite
              else if fp_le_zero (cardan_root r rzeta phi 1) then Inl not_positive_definite
              else if fp_le_zero (cardan_root r rzeta phi 2) then Inl not_positive_definite
              else Inr (cardan_root r rzeta phi 0, cardan_root r rzeta phi 1,
                        cardan_root r rzeta phi 2))"

definition Eigenvalues :: "sym6 \<Rightarrow> error + (fp \<times> fp \<times> fp)" where
  "Eigenvalues adp = (case normal_form adp of (r, s, t) \<Rightarrow> Eigenvalues_cardan r s t)"


section \<open>Eigenvector solver\<close>

text \<open>
  One pass of the loop of \<open>recursively_multiply\<close> computes the product \<open>MV\<close>, its
  length \<open>abs_lambda\<close>, the normalized product and the scaled tolerance.
\<close>

definition abs_lambda :: "mx33 \<Rightarrow> vec3 \<Rightarrow> real" where
  "abs_lambda M V = sqrt (dot (multiply M V) (multiply M V))"

definition normalized :: "mx33 \<Rightarrow> vec3 \<Rightarrow> vec3" where
  "normalized M V = vec_div (multiply M V) (abs_lambda M V)"

definition scaled_tolerance :: "vec3 \<Rightarrow> real \<Rightarrow> real" where
  "scaled_tolerance MV tolerance =
     (let absMV = array_abs MV; iMax = array_max_index absMV in elem absMV iMax * tolerance)"

text \<open>
  The loop, with the run-away counter as an argument. The counter grows in every pass
  that does not leave the loop, and the pass that takes it beyond 1000 throws.
\<close>

function rm_loop :: "mx33 \<Rightarrow> vec3 \<Rightarrow> real \<Rightarrow> nat \<Rightarrow> error + vec3" where
  "rm_loop M V tolerance RunAwayCounter =
     (if abs_lambda M V = 0 then Inr (multiply M V)
      else
        let MV = normalized M V;
            scaled = scaled_tolerance MV tolerance
        in if approx_equal MV (vec_neg V) scaled then Inl not_positive_definite
           else if approx_equal MV V scaled then Inr MV
           else if RunAwayCounter + 1 > 1000 then Inl cctbx_internal_error
           else rm_loop M MV tolerance (RunAwayCounter + 1))"
  by pat_completeness auto
termination
  by (relation "measure (\<lambda>(M, V, tolerance, RunAwayCounter). 1001 - RunAwayCounter)") auto

definition recursively_multiply :: "mx33 \<Rightarrow> vec3 \<Rightarrow> real \<Rightarrow> error + vec3" where
  "recursively_multiply M V tolerance = rm_loop M V tolerance 0"

text \<open>
  The body of the loop over the two matrices in \<open>Eigenvectors\<close>: the start vector
  along the largest diagonal element, the power iteration with its default tolerance
  \<open>1.e-6\<close>, and the check that the result is not the zero vector.
\<close>

definition eigenvector_of :: "mx33 \<Rightarrow> error + vec3" where
  "eigenvector_of M =
     (let Diag = DiagonalElements M;
          iLarge = array_max_index (array_abs Diag);
          V = unit_vector iLarge
      in case recursively_multiply M V (1 / 10 ^ 6) of
           Inl e \<Rightarrow> Inl e
         | Inr res \<Rightarrow> if dot res res = 0 then Inl not_positive_definite else Inr res)"

definition Eigenvectors :: "sym6 \<Rightarrow> real \<Rightarrow> error + (vec3 \<times> vec3 \<times> vec3)" where
  "Eigenvectors adp tolerance =
     (let M0 = Xaniso_as_SymMx33 adp;
          d = Determinant M0
      in if d = 0 then Inl not_positive_definite
         else
           let M1 = mx_div (CoFactorMxTp M0) d
           in case eigenvector_of M0 of
                Inl e \<Rightarrow> Inl e
              | Inr result0 \<Rightarrow>
                  (case eigenvector_of M1 of
                     Inl e \<Rightarrow> Inl e
                   | Inr result1 \<Rightarrow>
                       let result2 = cross_product result0 result1
                       in if \<not> dot result2 result2 \<noteq> 0 then Inl cctbx_assert_failure
                          else Inr (result0, result1, result2)))"


section \<open>The passes of the power iteration\<close>

text \<open>
  The vector that the loop of \<open>recursively_multiply\<close> holds when the run-away counter
  is \<open>n\<close>, provided no earlier pass left the loop.
\<close>

fun iterate :: "nat \<Rightarrow> mx33 \<Rightarrow> vec3 \<Rightarrow> vec3" where
  "iterate 0 M V = V"
| "iterate (Suc n) M V = normalized M (iterate n M V)"

text \<open>
  What one pass decides from the vector it starts with: it returns the zero product,
  throws on negative convergence, returns the normalized product on convergence, or
  leaves the decision to the next pass.
\<close>

definition pass_outcome :: "mx33 \<Rightarrow> vec3 \<Rightarrow> real \<Rightarrow> (error + vec3) option" where
  "pass_outcome M V tolerance =
     (if abs_lambda M V = 0 then Some (Inr (multiply M V))
      else if approx_equal (normalized M V) (vec_neg V)
                (scaled_tolerance (normalized M V) tolerance)
        then Some (Inl not_positive_definite)
      else if approx_equal (normalized M V) V (scaled_tolerance (normalized M V) tolerance)
        then Some (Inr (normalized M V))
      else None)"

text \<open>The i-th root that \<open>Eigenvalues\<close> computes from the coefficients \<open>r, s, t\<close>.\<close>

definition computed_root :: "real \<Rightarrow> real \<Rightarrow> real \<Rightarrow> nat \<Rightarrow> fp" where
  "computed_root r s t i =
     (let p = reduced_p r s;
          q = reduced_q r s t;
          p3 = p * p * p;
          zeta = fp_sqrt (- p3 / 27);
          phi = fp_bind zeta (\<lambda>z. fp_acos_quotient (- q) (2 * z));
          rzeta = fp_map (\<lambda>z. 2 * z powr (1 / 3)) zeta
      in cardan_root r rzeta phi i)"


section \<open>Example inputs\<close>

text \<open>
  An orthogonal unit cell with edges 1, 1/2 and 1/4; a rotation by a quarter turn about
  the third axis; a matrix that maps the first axis to the negated second axis and
  reverses the second axis.
\<close>

definition example_cell :: UnitCell where
  "example_cell =
     \<lparr>Len = (1, 1 / 2, 1 / 4), R_Len = (1, 2, 4),
      FractionalizationMatrix = (1, 0, 0, 0, 2, 0, 0, 0, 4),
      OrthogonalizationMatrix = (1, 0, 0, 0, 1 / 2, 0, 0, 0, 1 / 4),
      Q = (\<lambda>(h, k, l). real_of_int (h * h + 4 * k * k + 16 * l * l))\<rparr>"

definition quarter_turn :: mx33 where
  "quarter_turn = (0, - 1, 0, 1, 0, 0, 0, 0, 1)"

definition reversing :: mx33 where
  "reversing = (0, 0, 0, - 1, - 1, 0, 0, 0, 0)"


section \<open>Properties of the converter\<close>

lemma TwoPiSquared_nonzero: "TwoPiSquared \<noteq> 0"
  by (simp add: TwoPiSquared_def)

lemma EightPiSquared_nonzero: "EightPiSquared \<noteq> 0"
  by (simp add: EightPiSquared_def)

lemma Ustar_Uuvrs_len_roundtrip:
  assumes "l0 \<noteq> 0" and "l1 \<noteq> 0" and "l2 \<noteq> 0"
  shows "Ustar_as_Uuvrs_len (l0, l1, l2) (Uuvrs_as_Ustar_len (l0, l1, l2) T) = T"
  using assms by (cases T) simp

lemma beta_Ustar_roundtrip: "beta_as_Ustar (Ustar_as_beta T) = T"
  using TwoPiSquared_nonzero by (cases T) (simp add: beta_as_Ustar_def Ustar_as_beta_def)

lemma B_U_aniso_roundtrip: "B_as_U_aniso (U_as_B_aniso T) = T"
  using EightPiSquared_nonzero by (cases T) (simp add: B_as_U_aniso_def U_as_B_aniso_def)

lemma B_U_roundtrip: "B_as_U (U_as_B u) = u"
  using EightPiSquared_nonzero by (simp add: B_as_U_def U_as_B_def)

lemma Uiso_Ucart_roundtrip: "Ucart_as_Uiso (Uiso_as_Ucart u) = u"
  by (simp add: Uiso_as_Ucart_def)

text \<open>
  Claim C4. For every six-component tensor \<open>T\<close> and every unit cell whose three
  reciprocal edge lengths are nonzero, each conversion followed by its inverse gives
  \<open>T\<close> back: fractional to reciprocal-star and back, reciprocal-star to beta and back,
  U to B and back (on tensors and on scalars), and an isotropic scalar to Cartesian
  form and back. With exact arithmetic the round trip is an equality.
\<close>

theorem conversions_roundtrip:
  assumes "R_Len uc = (l0, l1, l2)" and "l0 \<noteq> 0" and "l1 \<noteq> 0" and "l2 \<noteq> 0"
  shows "Ustar_as_Uuvrs uc (Uuvrs_as_Ustar uc T) = T
       \<and> beta_as_Ustar (Ustar_as_beta T) = T
       \<and> B_as_U_aniso (U_as_B_aniso T) = T
       \<and> B_as_U (U_as_B u) = u
       \<and> Ucart_as_Uiso (Uiso_as_Ucart u) = u"
proof -
  have "Ustar_as_Uuvrs uc (Uuvrs_as_Ustar uc T) = T"
    using assms Ustar_Uuvrs_len_roundtrip [of l0 l1 l2 T]
    by (simp add: Ustar_as_Uuvrs_def Uuvrs_as_Ustar_def getLen_def)
  then show ?thesis
    by (simp add: beta_Ustar_roundtrip B_U_aniso_roundtrip B_U_roundtrip Uiso_Ucart_roundtrip)
qed

theorem conversions_roundtrip_witness:
  "R_Len example_cell = (1, 2, 4)
   \<and> Ustar_as_Uuvrs example_cell (Uuvrs_as_Ustar example_cell (1, 2, 3, 4, 5, 6))
       = (1, 2, 3, 4, 5, 6)
   \<and> beta_as_Ustar (Ustar_as_beta (1, 2, 3, 4, 5, 6)) = (1, 2, 3, 4, 5, 6)
   \<and> B_as_U_aniso (U_as_B_aniso (1, 2, 3, 4, 5, 6)) = (1, 2, 3, 4, 5, 6)
   \<and> B_as_U (U_as_B 7) = 7
   \<and> Ucart_as_Uiso (Uiso_as_Ucart 7) = 7"
proof -
  have len: "R_Len example_cell = (1, 2, 4)"
    by (simp add: example_cell_def)
  show ?thesis
    using len conversions_roundtrip [OF len, of "(1, 2, 3, 4, 5, 6)" 7] by simp
qed

text \<open>
  The mean of the diagonal forgets the anisotropy, so the isotropic pair is a round
  trip from the scalar side only.
\<close>

lemma Ucart_Uiso_not_injective:
  "Uiso_as_Ucart (Ucart_as_Uiso (1, 2, 3, 0, 0, 0)) = (2, 2, 2, 0, 0, 0)"
  by (simp add: Uiso_as_Ucart_def)


section \<open>Properties of the Debye-Waller evaluator\<close>

text \<open>
  Claim C9. With \<open>Uiso = 0\<close> the isotropic Debye-Waller factor is 1 for every
  \<open>(sin(theta)/lambda)^2\<close>, and for every unit cell and Miller index; with the Miller
  index (0, 0, 0) the anisotropic factor is 1 for every tensor. The evaluators return a
  value on every input and check nothing: on the tensor (-1, 1, 1, 0, 0, 0), which is
  not positive definite, the factor of the index (1, 0, 0) is \<open>exp (2 pi^2)\<close>.
\<close>

theorem DebyeWaller_sanity:
  "DebyeWallerFactorUiso stol2 0 = 1
   \<and> DebyeWallerFactorUiso_uc uc MIx 0 = 1
   \<and> DebyeWallerFactorUstar (0, 0, 0) Ustar = 1
   \<and> DebyeWallerFactorUstar (1, 0, 0) (- 1, 1, 1, 0, 0, 0) = exp TwoPiSquared"
  by (cases Ustar)
    (simp add: DebyeWallerFactorUiso_def DebyeWallerFactorUiso_uc_def
      DebyeWallerFactorBiso_uc_def DebyeWallerFactorBiso_def U_as_B_def)


section \<open>Properties of the eigenvalue solver\<close>

lemma isotropic_normal_form:
  "normal_form (Uiso_as_Ucart u) = (- 3 * u, 3 * u * u, - (u * u * u))"
  by (simp add: Uiso_as_Ucart_def algebra_simps)

lemma isotropic_p: "reduced_p (- 3 * u) (3 * u * u) = 0"
  by (simp add: reduced_p_def algebra_simps)

lemma isotropic_q: "reduced_q (- 3 * u) (3 * u * u) (- (u * u * u)) = 0"
  by (simp add: reduced_q_def algebra_simps)

text \<open>
  When \<open>p\<close> and \<open>q\<close> are both zero, \<open>zeta\<close> is zero, the quotient \<open>-q / (2 zeta)\<close>
  is 0/0, and all three roots are NaN. No comparison \<open>result[i] <= 0\<close> holds, so the
  solver returns them.
\<close>

lemma Eigenvalues_cardan_triple_root:
  assumes "reduced_p r s = 0" and "reduced_q r s t = 0"
  shows "Eigenvalues_cardan r s t = Inr (NaN, NaN, NaN)"
  using assms
  by (simp add: Eigenvalues_cardan_def fp_sqrt_def fp_acos_quotient_def cardan_root_def)

lemma Eigenvalues_isotropic: "Eigenvalues (Uiso_as_Ucart u) = Inr (NaN, NaN, NaN)"
proof -
  have "Eigenvalues (Uiso_as_Ucart u)
      = Eigenvalues_cardan (- 3 * u) (3 * u * u) (- (u * u * u))"
    unfolding Eigenvalues_def isotropic_normal_form by simp
  also have "\<dots> = Inr (NaN, NaN, NaN)"
    by (rule Eigenvalues_cardan_triple_root [OF isotropic_p isotropic_q])
  finally show ?thesis .
qed

text \<open>
  Claim C1. The claim asks for three eigenvalues equal to \<open>u\<close> on the isotropic
  tensor of a positive \<open>u\<close>. The solver does return without an error, but for
  \<open>u = 1\<close> (where every intermediate value is exact in binary floating point:
  \<open>r = -3\<close>, \<open>s = 3\<close>, \<open>t = -1\<close>, \<open>p = q = D = zeta = 0\<close>) the three
  values it returns are NaN, not 1.
\<close>

theorem Eigenvalues_isotropic_one:
  "Eigenvalues (Uiso_as_Ucart 1) = Inr (NaN, NaN, NaN)"
  by (rule Eigenvalues_isotropic)

text \<open>
  Claim C2. Whenever the quantity \<open>D = p^3/27 + q^2/4\<close> computed from the
  coefficients of the normal form is positive, the assertion \<open>D <= 0\<close> fails and the
  solver ends with the error of the NotPositiveDefinite category. The statement is on
  the part of \<open>Eigenvalues\<close> that follows the computation of \<open>r, s, t\<close>: with exact
  arithmetic the coefficients of a symmetric tensor never give a positive \<open>D\<close>.
\<close>

theorem Eigenvalues_positive_discriminant:
  assumes "0 < cubic_D r s t"
  shows "Eigenvalues_cardan r s t = Inl not_positive_definite"
  using assms
  by (simp add: Eigenvalues_cardan_def cubic_D_def cctbx_assert_failure_def Let_def)

theorem Eigenvalues_positive_discriminant_witness:
  "0 < cubic_D 0 1 0 \<and> Eigenvalues_cardan 0 1 0 = Inl not_positive_definite"
proof -
  have D: "0 < cubic_D 0 1 0"
    by (simp add: cubic_D_def reduced_p_def reduced_q_def)
  show ?thesis
    using D Eigenvalues_positive_discriminant [OF D] by simp
qed

text \<open>
  With \<open>D <= 0\<close> the solver fails exactly when one of the three computed roots
  compares \<open><= 0\<close>, and every finite value it returns is positive.
\<close>

lemma Eigenvalues_cardan_fails_iff:
  assumes "cubic_D r s t \<le> 0"
  shows "Eigenvalues_cardan r s t = Inl not_positive_definite
     \<longleftrightarrow> fp_le_zero (computed_root r s t 0) \<or> fp_le_zero (computed_root r s t 1)
          \<or> fp_le_zero (computed_root r s t 2)"
  using assms
  by (simp add: Eigenvalues_cardan_def computed_root_def cubic_D_def Let_def)

lemma Eigenvalues_cardan_finite_positive:
  assumes "Eigenvalues_cardan r s t = Inr (l0, l1, l2)"
    and "Finite x \<in> {l0, l1, l2}"
  shows "0 < x"
proof -
  have "\<not> fp_le_zero l0 \<and> \<not> fp_le_zero l1 \<and> \<not> fp_le_zero l2"
    using assms(1) by (auto simp: Eigenvalues_cardan_def Let_def split: if_splits)
  with assms(2) show ?thesis by auto
qed

lemma sqrt_64_729: "sqrt (64 / 729) = 8 / 27"
  by (rule real_sqrt_unique) (simp_all add: power2_eq_square)

lemma cube_root_8_27: "(8 / 27 :: real) powr (1 / 3) = 2 / 3"
proof -
  have a: "(8 / 27 :: real) = (2 / 3) ^ 3"
    by (simp add: power3_eq_cube)
  have "((2 / 3 :: real) ^ 3) powr (1 / 3) = ((2 / 3) powr 3) powr (1 / 3)"
    by (simp add: powr_numeral)
  also have "\<dots> = (2 / 3) powr (3 * (1 / 3))"
    by (rule powr_powr)
  also have "\<dots> = 2 / 3"
    by simp
  finally show ?thesis
    by (simp only: a)
qed

text \<open>
  The tensor (-1, 1, 1, 0, 0, 0): \<open>D = 0\<close>, the first root is 1 and the second is
  -1, where the solver throws.
\<close>

lemma Eigenvalues_negative_diagonal:
  "Eigenvalues (- 1, 1, 1, 0, 0, 0) = Inl not_positive_definite"
proof -
  have nf: "normal_form (- 1, 1, 1, 0, 0, 0) = (- 1, - 1, 1)"
    by simp
  have p: "reduced_p (- 1) (- 1) = - 4 / 3"
    by (simp add: reduced_p_def)
  have q: "reduced_q (- 1) (- 1) 1 = 16 / 27"
    by (simp add: reduced_q_def)
  have z: "fp_sqrt (64 / 729) = Finite (8 / 27)"
    using sqrt_64_729 by (simp add: fp_sqrt_def)
  have ph: "fp_acos_quotient (- (16 / 27)) (16 / 27) = Finite pi"
    by (simp add: fp_acos_quotient_def)
  have c1: "cos ((pi + 2 * pi) / 3) = - 1"
    by simp
  show ?thesis
    unfolding Eigenvalues_def nf
    by (simp add: Eigenvalues_cardan_def p q z ph cardan_root_def cube_root_8_27 cos_60 c1
        Let_def)
qed

text \<open>
  Claim C5. The claim ends with: on success all returned eigenvalues are strictly
  positive. The zero tensor has \<open>D = 0\<close>, so it passes the assertion; its three
  computed roots are NaN, none compares \<open><= 0\<close>, and the solver returns them: a
  success whose values are not positive. (The equivalence of the claim and its example
  (-1, 1, 1, 0, 0, 0) are the three lemmas above.)
\<close>

theorem Eigenvalues_zero_tensor:
  "normal_form (0, 0, 0, 0, 0, 0) = (0, 0, 0)
   \<and> cubic_D 0 0 0 = 0
   \<and> Eigenvalues (0, 0, 0, 0, 0, 0) = Inr (NaN, NaN, NaN)"
  by (simp add: Eigenvalues_def Eigenvalues_cardan_triple_root cubic_D_def
      reduced_p_def reduced_q_def)


section \<open>Properties of the power iteration\<close>

lemma rm_loop_pass:
  "rm_loop M V tolerance c =
     (case pass_outcome M V tolerance of
        Some res \<Rightarrow> res
      | None \<Rightarrow> if 1000 < c + 1 then Inl cctbx_internal_error
                else rm_loop M (normalized M V) tolerance (c + 1))"
  by (subst rm_loop.simps) (simp add: pass_outcome_def Let_def)

text \<open>Passes that decide nothing only advance the vector and the counter.\<close>

lemma rm_loop_skip:
  assumes "\<forall>j<k. pass_outcome M (iterate j M V) tolerance = None" and "c + k \<le> 1000"
  shows "rm_loop M V tolerance c = rm_loop M (iterate k M V) tolerance (c + k)"
  using assms
proof (induction k)
  case 0
  then show ?case by simp
next
  case (Suc k)
  have "rm_loop M V tolerance c = rm_loop M (iterate k M V) tolerance (c + k)"
    using Suc by simp
  also have "\<dots> = rm_loop M (iterate (Suc k) M V) tolerance (c + Suc k)"
    using Suc.prems by (subst rm_loop_pass) simp
  finally show ?case .
qed

lemma rm_loop_exit:
  assumes "\<forall>j<k. pass_outcome M (iterate j M V) tolerance = None" and "k \<le> 1000"
    and "pass_outcome M (iterate k M V) tolerance = Some res"
  shows "recursively_multiply M V tolerance = res"
proof -
  have "rm_loop M V tolerance 0 = rm_loop M (iterate k M V) tolerance (0 + k)"
    using assms(1,2) by (intro rm_loop_skip) simp_all
  also have "\<dots> = res"
    using assms(3) by (subst rm_loop_pass) simp
  finally show ?thesis by (simp add: recursively_multiply_def)
qed

lemma rm_loop_runaway:
  assumes "\<forall>k\<le>1000. pass_outcome M (iterate k M V) tolerance = None"
  shows "recursively_multiply M V tolerance = Inl cctbx_internal_error"
proof -
  have "rm_loop M V tolerance 0 = rm_loop M (iterate 1000 M V) tolerance (0 + 1000)"
    using assms by (intro rm_loop_skip) simp_all
  also have "\<dots> = Inl cctbx_internal_error"
    using assms by (subst rm_loop_pass) simp
  finally show ?thesis by (simp add: recursively_multiply_def)
qed

lemma pass_outcome_not_internal:
  "pass_outcome M V tolerance \<noteq> Some (Inl cctbx_internal_error)"
  by (simp add: pass_outcome_def)

text \<open>
  Claim C7. In a run of \<open>recursively_multiply\<close>, let the pass with counter value
  \<open>k\<close> be reached (no earlier pass left the loop) and let its product be nonzero.
  If the normalized product equals the negated previous vector within the scaled
  tolerance (the tolerance times the largest absolute component of the normalized
  product), the run fails with \<open>not_positive_definite\<close>.
\<close>

theorem recursively_multiply_negative_convergence:
  assumes "k \<le> 1000"
    and "\<forall>j<k. pass_outcome M (iterate j M V) tolerance = None"
    and "abs_lambda M (iterate k M V) \<noteq> 0"
    and "approx_equal (normalized M (iterate k M V)) (vec_neg (iterate k M V))
           (scaled_tolerance (normalized M (iterate k M V)) tolerance)"
  shows "recursively_multiply M V tolerance = Inl not_positive_definite"
proof -
  have "pass_outcome M (iterate k M V) tolerance = Some (Inl not_positive_definite)"
    using assms(3,4) by (simp add: pass_outcome_def)
  with assms(2,1) show ?thesis by (rule rm_loop_exit)
qed

text \<open>
  The witness: from the first axis, the first pass of \<open>reversing\<close> decides nothing and
  the second finds the negated vector.
\<close>

theorem recursively_multiply_negative_convergence_witness:
  "pass_outcome reversing (iterate 0 reversing (1, 0, 0)) (1 / 10 ^ 6) = None
   \<and> iterate 1 reversing (1, 0, 0) = (0, - 1, 0)
   \<and> normalized reversing (0, - 1, 0) = (0, 1, 0)
   \<and> recursively_multiply reversing (1, 0, 0) (1 / 10 ^ 6) = Inl not_positive_definite"
proof -
  have 0: "pass_outcome reversing (1, 0, 0) (1 / 10 ^ 6) = None"
    by (simp add: pass_outcome_def normalized_def abs_lambda_def reversing_def
        scaled_tolerance_def)
  have 1: "iterate 1 reversing (1, 0, 0) = (0, - 1, 0)"
    by (simp add: normalized_def abs_lambda_def reversing_def)
  have 2: "normalized reversing (0, - 1, 0) = (0, 1, 0)" "abs_lambda reversing (0, - 1, 0) = 1"
    by (simp_all add: normalized_def abs_lambda_def reversing_def)
  have "recursively_multiply reversing (1, 0, 0) (1 / 10 ^ 6) = Inl not_positive_definite"
    using recursively_multiply_negative_convergence [of 1 reversing "(1, 0, 0)" "1 / 10 ^ 6"] 0
    unfolding 1 2 by (simp add: scaled_tolerance_def)
  with 0 1 2 show ?thesis by simp
qed

text \<open>
  Claim C8. \<open>recursively_multiply\<close> is a total function: its loop is defined by a
  recursion that ends because the counter grows up to its bound. On every input one
  of two things holds. Either some pass with a counter value \<open>k <= 1000\<close> is the
  first to decide, and the result is what that pass decides: the zero product or the
  converged vector, or \<open>not_positive_definite\<close>, and never the internal error. Or
  no pass with a counter value up to 1000 decides, and the result is
  \<open>cctbx_internal_error\<close>, which is not \<open>not_positive_definite\<close>.
\<close>

theorem recursively_multiply_terminates:
  "((\<exists>k\<le>1000. (\<forall>j<k. pass_outcome M (iterate j M V) tolerance = None)
        \<and> pass_outcome M (iterate k M V) tolerance = Some (recursively_multiply M V tolerance))
     \<and> recursively_multiply M V tolerance \<noteq> Inl cctbx_internal_error)
   \<or> ((\<forall>k\<le>1000. pass_outcome M (iterate k M V) tolerance = None)
        \<and> recursively_multiply M V tolerance = Inl cctbx_internal_error
        \<and> cctbx_internal_error \<noteq> not_positive_definite)"
proof (cases "\<forall>k\<le>1000. pass_outcome M (iterate k M V) tolerance = None")
  case True
  then show ?thesis using rm_loop_runaway by blast
next
  case False
  define P where "P k \<longleftrightarrow> pass_outcome M (iterate k M V) tolerance \<noteq> None" for k
  from False obtain k0 where k0: "k0 \<le> 1000" "P k0" by (auto simp: P_def)
  define k where "k = (LEAST k. P k)"
  have Pk: "P k" unfolding k_def using k0(2) by (rule LeastI)
  have kle: "k \<le> k0" unfolding k_def using k0(2) by (rule Least_le)
  have before: "\<forall>j<k. pass_outcome M (iterate j M V) tolerance = None"
    using not_less_Least [of _ P] by (auto simp: k_def P_def)
  from Pk obtain res where res: "pass_outcome M (iterate k M V) tolerance = Some res"
    by (auto simp: P_def)
  have eq: "recursively_multiply M V tolerance = res"
    using before _ res by (rule rm_loop_exit) (use kle k0 in simp)
  have "res \<noteq> Inl cctbx_internal_error"
    using res pass_outcome_not_internal by metis
  moreover have "k \<le> 1000" using kle k0 by simp
  ultimately show ?thesis using eq res before by blast
qed

text \<open>
  The witness: the quarter turn moves the first axis around four vectors, no pass
  decides, and the run ends with the internal error.
\<close>

lemma quarter_turn_iterate:
  "iterate k quarter_turn (1, 0, 0) \<in> {(1, 0, 0), (0, 1, 0), (- 1, 0, 0), (0, - 1, 0)}"
proof (induction k)
  case 0
  show ?case by simp
next
  case (Suc k)
  then show ?case
    by (auto simp: normalized_def abs_lambda_def quarter_turn_def)
qed

lemma quarter_turn_pass:
  assumes "V \<in> {(1, 0, 0), (0, 1, 0), (- 1, 0, 0), (0, - 1, 0)}"
  shows "pass_outcome quarter_turn V (1 / 10 ^ 6) = None"
  using assms
  by (auto simp: pass_outcome_def normalized_def abs_lambda_def quarter_turn_def
      scaled_tolerance_def)

theorem recursively_multiply_terminates_witness:
  "recursively_multiply quarter_turn (1, 0, 0) (1 / 10 ^ 6) = Inl cctbx_internal_error"
  using recursively_multiply_terminates [of quarter_turn "(1, 0, 0)" "1 / 10 ^ 6"]
    quarter_turn_pass [OF quarter_turn_iterate]
  by auto


section \<open>Properties of the eigenvector solver\<close>

text \<open>
  Claim C6. If the determinant of the tensor expanded to its 3x3 matrix is zero,
  \<open>Eigenvectors\<close> fails with \<open>not_positive_definite\<close>. The test is the first
  thing the function does, so nothing is assumed about the power iteration.
\<close>

theorem Eigenvectors_singular:
  assumes "Determinant (Xaniso_as_SymMx33 adp) = 0"
  shows "Eigenvectors adp tolerance = Inl not_positive_definite"
  using assms by (simp add: Eigenvectors_def)

theorem Eigenvectors_singular_witness:
  "Determinant (Xaniso_as_SymMx33 (1, 2, 0, 0, 0, 0)) = 0
   \<and> Eigenvectors (1, 2, 0, 0, 0, 0) (1 / 10 ^ 6) = Inl not_positive_definite"
  using Eigenvectors_singular [of "(1, 2, 0, 0, 0, 0)" "1 / 10 ^ 6"] by simp

text \<open>
  Claim C3. If both power iterations succeed and the cross product of the two
  vectors they give is the zero vector, the assertion on the third vector fails and
  \<open>Eigenvectors\<close> ends with the error of the NotPositiveDefinite category.
\<close>

theorem Eigenvectors_parallel:
  assumes "Determinant (Xaniso_as_SymMx33 adp) \<noteq> 0"
    and "eigenvector_of (Xaniso_as_SymMx33 adp) = Inr result0"
    and "eigenvector_of (mx_div (CoFactorMxTp (Xaniso_as_SymMx33 adp))
            (Determinant (Xaniso_as_SymMx33 adp))) = Inr result1"
    and "cross_product result0 result1 = (0, 0, 0)"
  shows "Eigenvectors adp tolerance = Inl not_positive_definite"
  using assms by (simp add: Eigenvectors_def cctbx_assert_failure_def)

text \<open>
  The witness is the isotropic tensor: the matrix and its inverse are the identity,
  both iterations return the first axis.
\<close>

lemma eigenvector_of_identity: "eigenvector_of (1, 0, 0, 0, 1, 0, 0, 0, 1) = Inr (1, 0, 0)"
  unfolding eigenvector_of_def recursively_multiply_def
  by (subst rm_loop.simps)
    (simp add: normalized_def abs_lambda_def scaled_tolerance_def unit_vector_def)

theorem Eigenvectors_parallel_witness:
  "eigenvector_of (Xaniso_as_SymMx33 (1, 1, 1, 0, 0, 0)) = Inr (1, 0, 0)
   \<and> cross_product (1, 0, 0) (1, 0, 0) = (0, 0, 0)
   \<and> Eigenvectors (1, 1, 1, 0, 0, 0) (1 / 10 ^ 6) = Inl not_positive_definite"
  using Eigenvectors_parallel [of "(1, 1, 1, 0, 0, 0)" "(1, 0, 0)" "(1, 0, 0)" "1 / 10 ^ 6"]
  by (simp add: eigenvector_of_identity)

text \<open>
  Claim C10. \<open>Eigenvectors\<close> gives the same result for every two values of its
  tolerance argument: the argument is not used, and both power iterations run with
  the default tolerance \<open>1.e-6\<close> of \<open>recursively_multiply\<close>.
\<close>

theorem Eigenvectors_ignores_tolerance:
  "Eigenvectors adp t1 = Eigenvectors adp t2"
  by (simp add: Eigenvectors_def)

text \<open>
  The power iteration itself does depend on its tolerance: with a tolerance of 2 the
  quarter turn is taken for a negated vector in the first pass.
\<close>

lemma recursively_multiply_uses_tolerance:
  "recursively_multiply quarter_turn (1, 0, 0) 2 = Inl not_positive_definite"
  unfolding recursively_multiply_def
  by (subst rm_loop.simps)
    (simp add: normalized_def abs_lambda_def quarter_turn_def scaled_tolerance_def)

end
